theory Spec2Isabelle
  imports Complex_Main
begin

section \<open>Arrays\<close>

text \<open>
  An array of any rank: its shape and its entries, read at a multi-index. It stands for the
  arrays annotated \<^verbatim>\<open>Int32[Array, "*batch"]\<close> and \<^verbatim>\<open>Float[Array, "*batch"]\<close>.
\<close>

record 'a ndarray =
  shape :: "nat list"
  item :: "nat list \<Rightarrow> 'a"

text \<open>
  The arrays annotated \<^verbatim>\<open>Float[Array, "*batch row col"]\<close>: any number of leading batch
  axes and two trailing axes. \<^verbatim>\<open>x.shape[:-2]\<close> is \<open>batch x\<close>, \<^verbatim>\<open>x.shape[-2]\<close> is \<open>row x\<close>,
  \<^verbatim>\<open>x.shape[-1]\<close> is \<open>col x\<close>, and \<open>cell x b i j\<close> is the entry at batch index \<open>b\<close>,
  row \<open>i\<close>, column \<open>j\<close>. Floating-point numbers are modelled as reals.
\<close>

record tensor =
  batch :: "nat list"
  row :: nat
  col :: nat
  cell :: "nat list \<Rightarrow> nat \<Rightarrow> nat \<Rightarrow> real"

text \<open>\<^verbatim>\<open>jnp.full(shape, fill_value)\<close>.\<close>

definition full :: "nat list \<Rightarrow> 'a \<Rightarrow> 'a ndarray" where
  "full s v = \<lparr>shape = s, item = \<lambda>_. v\<rparr>"

text \<open>\<^verbatim>\<open>jnp.zeros_like(x)\<close>.\<close>

definition zeros_like :: "tensor \<Rightarrow> tensor" where
  "zeros_like x = \<lparr>batch = batch x, row = row x, col = col x, cell = \<lambda>_ _ _. 0\<rparr>"

text \<open>A multi-index lies within a shape when it has one component per axis, each below the
  size of its axis.\<close>

definition in_shape :: "nat list \<Rightarrow> nat list \<Rightarrow> bool" where
  "in_shape b s = list_all2 (\<lambda>k d. k < d) b s"

subsection \<open>Broadcasting\<close>

text \<open>
  NumPy's broadcasting of two axes: equal sizes, or one of them of size 1. Shapes are
  aligned from the right; the shorter is padded with axes of size 1 on the left.
\<close>

definition broadcast_dim :: "nat \<Rightarrow> nat \<Rightarrow> nat option" where
  "broadcast_dim x y = (if x = y \<or> y = 1 then Some x else if x = 1 then Some y else None)"

fun broadcast_rev :: "nat list \<Rightarrow> nat list \<Rightarrow> nat list option" where
  "broadcast_rev [] ys = Some ys"
| "broadcast_rev xs [] = Some xs"
| "broadcast_rev (x # xs) (y # ys) =
     (case broadcast_dim x y of
        None \<Rightarrow> None
      | Some d \<Rightarrow> (case broadcast_rev xs ys of None \<Rightarrow> None | Some ds \<Rightarrow> Some (d # ds)))"

definition broadcast_shapes :: "nat list \<Rightarrow> nat list \<Rightarrow> nat list option" where
  "broadcast_shapes s t = map_option rev (broadcast_rev (rev s) (rev t))"

text \<open>The index at which an operand of shape \<open>s\<close> is read for the index \<open>b\<close> of the
  broadcast result: leading axes the operand lacks are dropped, an axis of size 1 is read
  at 0.\<close>

definition broadcast_index :: "nat list \<Rightarrow> nat list \<Rightarrow> nat list" where
  "broadcast_index s b = map2 (\<lambda>d k. if d = 1 then 0 else k) s (drop (length b - length s) b)"

definition broadcast_cell :: "tensor \<Rightarrow> nat list \<Rightarrow> nat \<Rightarrow> nat \<Rightarrow> real" where
  "broadcast_cell x b i j =
     cell x (broadcast_index (batch x) b) (if row x = 1 then 0 else i) (if col x = 1 then 0 else j)"

section \<open>Errors\<close>

text \<open>
  The exceptions of the source as values. \<open>ValueError\<close> is the error the specification
  calls ConfigurationError, \<open>NotImplementedError\<close> the one it calls
  UnsupportedOperationError; both carry their message. \<open>TypeError\<close> is raised when an
  array operation is given a value that is not an array, \<open>ShapeError\<close> when the operands
  of \<^verbatim>\<open>einsum\<close> do not broadcast, \<open>AttributeError\<close> when a method of \<^verbatim>\<open>None\<close> is called.
\<close>

datatype error =
    ValueError string
  | NotImplementedError string
  | TypeError
  | ShapeError
  | AttributeError

section \<open>The non-monotone alignment\<close>

text \<open>
  \<^verbatim>\<open>scipy.optimize.linear_sum_assignment(cost, maximize=True)\<close> is an external solver. It
  is a parameter \<open>solver\<close> of the model: given the size \<open>n\<close> and an \<open>n \<times> n\<close> matrix it
  returns the row indices and the column indices of an assignment.

  \<open>assignment_weight\<close> is the total weight \<^verbatim>\<open>cost[row_ind, col_ind].sum()\<close> of an assignment.
\<close>

type_synonym matrix = "nat \<Rightarrow> nat \<Rightarrow> real"

type_synonym assignment = "nat list \<times> nat list"

definition assignment_weight :: "matrix \<Rightarrow> assignment \<Rightarrow> real" where
  "assignment_weight M ij = sum_list (map (\<lambda>(r, c). M r c) (zip (fst ij) (snd ij)))"

text \<open>All the permutations of \<open>0, ..., n - 1\<close>, as lists.\<close>

definition permutations_upto :: "nat \<Rightarrow> nat list list" where
  "permutations_upto n = filter distinct (List.n_lists n [0..<n])"

text \<open>
  The contract of the solver on a square matrix: the row indices are \<open>0, ..., n - 1\<close> in
  order, the column indices are a permutation of them, and no permutation has a larger
  total weight.
\<close>

definition maximum_weight_assignment :: "nat \<Rightarrow> matrix \<Rightarrow> assignment \<Rightarrow> bool" where
  "maximum_weight_assignment n M ij \<longleftrightarrow>
     fst ij = [0..<n] \<and> snd ij \<in> set (permutations_upto n) \<and>
     (\<forall>q \<in> set (permutations_upto n). assignment_weight M ([0..<n], q) \<le> assignment_weight M ij)"

text \<open>A solver by exhaustive search: the first permutation of largest weight.\<close>

definition exhaustive_assignment :: "nat \<Rightarrow> matrix \<Rightarrow> assignment" where
  "exhaustive_assignment n M =
     ([0..<n],
      fold (\<lambda>q best. if assignment_weight M ([0..<n], best) < assignment_weight M ([0..<n], q)
                      then q else best)
           (permutations_upto n) [0..<n])"

text \<open>
  \<^verbatim>\<open>_numpy_non_monotone_align\<close>: the solver is applied to the matrix of every batch element
  (\<^verbatim>\<open>np.vectorize\<close> with signature \<^verbatim>\<open>(n, n)->(n),(n)\<close>); the entry \<open>(r, c)\<close> of the result
  is the sum over the positions \<open>k\<close> of \<^verbatim>\<open>one_hot(i)[k, r] * one_hot(j)[k, c]\<close>, that is, the
  number of positions at which the assignment pairs \<open>r\<close> with \<open>c\<close>.
\<close>

definition numpy_non_monotone_align :: "(nat \<Rightarrow> matrix \<Rightarrow> assignment) \<Rightarrow> tensor \<Rightarrow> tensor" where
  "numpy_non_monotone_align solver log_potentials =
     log_potentials\<lparr>cell := \<lambda>b r c.
        let ij = solver (col log_potentials) (cell log_potentials b)
        in real (count_list (zip (fst ij) (snd ij)) (r, c))\<rparr>"

text \<open>
  \<^verbatim>\<open>mask = jnp.arange(n) < lenghts[..., None]; mask = mask[..., None] * mask[..., None, :]\<close>:
  the cell \<open>(i, j)\<close> of batch element \<open>b\<close> is valid when both indices are below the length
  of \<open>b\<close>.
\<close>

definition length_mask :: "int ndarray \<Rightarrow> nat list \<Rightarrow> nat \<Rightarrow> nat \<Rightarrow> bool" where
  "length_mask lenghts b i j \<longleftrightarrow> int i < item lenghts b \<and> int j < item lenghts b"

text \<open>
  The matrix handed to the solver. \<open>INF'\<close> is the constant \<^verbatim>\<open>INF\<close> of \<^verbatim>\<open>synjax._src.constants\<close>, a
  module that is not among the sources; it is a parameter of the model.
  \<^verbatim>\<open>log_potentials = jnp.where(mask, log_potentials, -INF)\<close>,
  \<^verbatim>\<open>diag_mask = (jnp.arange(n) >= lenghts[..., None, None]) * jnp.eye(n)\<close>,
  \<^verbatim>\<open>log_potentials = jnp.where(diag_mask, INF, log_potentials)\<close>.
\<close>

definition padded_log_potentials :: "real \<Rightarrow> tensor \<Rightarrow> int ndarray \<Rightarrow> tensor" where
  "padded_log_potentials INF' log_potentials lenghts =
     (let masked = log_potentials\<lparr>cell := \<lambda>b i j.
            if length_mask lenghts b i j then cell log_potentials b i j else - INF'\<rparr>;
          diag_mask = (\<lambda>b i j. item lenghts b \<le> int j \<and> i = j)
      in masked\<lparr>cell := \<lambda>b i j. if diag_mask b i j then INF' else cell masked b i j\<rparr>)"

text \<open>
  \<^verbatim>\<open>_jax_non_monotone_align_callback\<close>, a function with a custom gradient: it returns its
  value, \<^verbatim>\<open>alignments*mask\<close>, and its backward rule, which maps the cotangent \<open>g\<close> of the
  value to the gradients with respect to the two arguments.
\<close>

definition jax_non_monotone_align_callback ::
  "real \<Rightarrow> (nat \<Rightarrow> matrix \<Rightarrow> assignment) \<Rightarrow> tensor \<Rightarrow> int ndarray
     \<Rightarrow> tensor \<times> (tensor \<Rightarrow> tensor \<times> int ndarray option)" where
  "jax_non_monotone_align_callback INF' solver log_potentials lenghts =
     (let padded = padded_log_potentials INF' log_potentials lenghts;
          alignments = numpy_non_monotone_align solver padded
      in (alignments\<lparr>cell := \<lambda>b i j.
            cell alignments b i j * of_bool (length_mask lenghts b i j)\<rparr>,
          \<lambda>g. (zeros_like padded, None)))"

section \<open>AlignmentCRF\<close>

text \<open>
  Modelled from the spec: the delegate \<^verbatim>\<open>GeneralMonotoneAlignmentCRF\<close> (module
  \<^verbatim>\<open>synjax._src.alignment_monotone_general\<close>, not among the sources) is an object
  constructed with the horizontal log-potentials (a pair of tensors), the vertical
  log-potentials (a tensor or nothing) and the two optional length vectors.
\<close>

record general_monotone_alignment_crf =
  log_potentials_horizontal :: "tensor \<times> tensor"
  log_potentials_vertical :: "tensor option"
  lengths_rows :: "int ndarray option"
  lengths_cols :: "int ndarray option"

text \<open>
  The fields \<^verbatim>\<open>_log_potentials\<close>, \<^verbatim>\<open>_lengths\<close>, \<^verbatim>\<open>_dist\<close> and \<^verbatim>\<open>alignment_type\<close>. The
  annotations of the arguments of the methods are the types of the model: log-potentials
  and events are tensors with two trailing axes, lengths are integer arrays, the
  alignment type is a string.
\<close>

record alignment_crf =
  crf_log_potentials :: tensor
  crf_lengths :: "int ndarray"
  crf_dist :: "general_monotone_alignment_crf option"
  alignment_type :: string

text \<open>\<^verbatim>\<open>AlignmentCRF.__init__\<close>.\<close>

definition init ::
  "tensor \<Rightarrow> int ndarray option \<Rightarrow> int ndarray option \<Rightarrow> string \<Rightarrow> error + alignment_crf" where
  "init log_potentials lengths_rows' lengths_cols' alignment_type' =
     (if lengths_cols' = None \<and> lengths_rows' = None
         \<and> alignment_type' = ''monotone_one_to_many''
         \<and> row log_potentials \<ge> col log_potentials
      then Inl (ValueError
        ''This is a useless distribution because there is less than two alignment possible.'')
      else
        let lengths' = (case lengths_rows' of
                          Some l \<Rightarrow> l
                        | None \<Rightarrow> full (batch log_potentials) (int (col log_potentials)))
        in
        if alignment_type' = ''monotone_one_to_many'' then
          Inr \<lparr>crf_log_potentials = log_potentials, crf_lengths = lengths',
               crf_dist = Some \<lparr>log_potentials_horizontal = (log_potentials, log_potentials),
                                 log_potentials_vertical = None,
                                 lengths_rows = lengths_rows', lengths_cols = lengths_cols'\<rparr>,
               alignment_type = alignment_type'\<rparr>
        else if alignment_type' = ''monotone_many_to_many'' then
          Inr \<lparr>crf_log_potentials = log_potentials, crf_lengths = lengths',
               crf_dist = Some \<lparr>log_potentials_horizontal = (log_potentials, log_potentials),
                                 log_potentials_vertical = Some log_potentials,
                                 lengths_rows = lengths_rows', lengths_cols = lengths_cols'\<rparr>,
               alignment_type = alignment_type'\<rparr>
        else if alignment_type' = ''non_monotone_one_to_one'' then
          (if lengths_cols' \<noteq> None then
             Inl (ValueError ''Non-monotone alignment requires only lengths_rows.'')
           else if col log_potentials \<noteq> row log_potentials then
             Inl (ValueError ''Non-monotone alignment requires square matrix.'')
           else
             Inr \<lparr>crf_log_potentials = log_potentials, crf_lengths = lengths',
                  crf_dist = None, alignment_type = alignment_type'\<rparr>)
        else Inl (ValueError (''Unknown alignment type: '' @ alignment_type')))"

text \<open>
  A Python value handed to a method as an event: an array, a tuple of values, or an
  \<^verbatim>\<open>AlignmentCRF\<close> object.
\<close>

datatype pyval =
    Array tensor
  | Tuple "pyval list"
  | Object alignment_crf

text \<open>The argument \<^verbatim>\<open>sample_shape: Union[Shape, int]\<close>.\<close>

datatype shape_or_int = ShapeTuple "nat list" | ShapeInt int

text \<open>
  The methods of the delegate, which the facade forwards to. Their code is not among the
  sources; they are parameters of the model. \<open>'key\<close> is the type of random keys, \<open>'kw\<close>
  the type of the keyword arguments \<^verbatim>\<open>**kwargs\<close>.
\<close>

record ('key, 'kw) delegate =
  d_sample :: "general_monotone_alignment_crf \<Rightarrow> 'key \<Rightarrow> shape_or_int \<Rightarrow> 'kw \<Rightarrow> error + tensor"
  d_normalize_log_probs :: "general_monotone_alignment_crf \<Rightarrow> real ndarray \<Rightarrow> error + real ndarray"
  d_log_prob :: "general_monotone_alignment_crf \<Rightarrow> tensor \<Rightarrow> 'kw \<Rightarrow> error + real ndarray"
  d_unnormalized_log_prob ::
    "general_monotone_alignment_crf \<Rightarrow> pyval \<Rightarrow> 'kw \<Rightarrow> error + real ndarray"
  d_log_partition :: "general_monotone_alignment_crf \<Rightarrow> 'kw \<Rightarrow> error + real ndarray"
  d_marginals_for_template_variables ::
    "general_monotone_alignment_crf \<Rightarrow> 'kw \<Rightarrow> error + tensor"
  d_marginals :: "general_monotone_alignment_crf \<Rightarrow> 'kw \<Rightarrow> error + tensor"
  d_argmax :: "general_monotone_alignment_crf \<Rightarrow> 'kw \<Rightarrow> error + tensor"
  d_top_k :: "general_monotone_alignment_crf \<Rightarrow> int \<Rightarrow> 'kw \<Rightarrow> error + tensor \<times> real ndarray"
  d_entropy :: "general_monotone_alignment_crf \<Rightarrow> 'kw \<Rightarrow> error + real ndarray"
  d_cross_entropy ::
    "general_monotone_alignment_crf \<Rightarrow> general_monotone_alignment_crf option \<Rightarrow> 'kw
       \<Rightarrow> error + real ndarray"
  d_kl_divergence ::
    "general_monotone_alignment_crf \<Rightarrow> general_monotone_alignment_crf option \<Rightarrow> 'kw
       \<Rightarrow> error + real ndarray"

text \<open>
  \<^verbatim>\<open>self._dist.method(...)\<close>: the call of a method of the delegate. When \<^verbatim>\<open>self._dist\<close> is
  \<^verbatim>\<open>None\<close>, Python raises AttributeError.
\<close>

definition forward :: "alignment_crf \<Rightarrow> (general_monotone_alignment_crf \<Rightarrow> error + 'a) \<Rightarrow> error + 'a" where
  "forward self method = (case crf_dist self of None \<Rightarrow> Inl AttributeError | Some d \<Rightarrow> method d)"

definition event_shape :: "alignment_crf \<Rightarrow> nat list" where
  "event_shape self = [row (crf_log_potentials self), col (crf_log_potentials self)]"

definition batch_shape :: "alignment_crf \<Rightarrow> nat list" where
  "batch_shape self = batch (crf_log_potentials self)"

definition sample ::
  "('key, 'kw) delegate \<Rightarrow> alignment_crf \<Rightarrow> 'key \<Rightarrow> shape_or_int \<Rightarrow> 'kw \<Rightarrow> error + tensor" where
  "sample D self key sample_shape kwargs =
     (if alignment_type self = ''non_monotone_one_to_one'' then
        Inl (NotImplementedError
          ''Non-monotone distribution doesn't support sampling.\<newline>Instead, you can try perturb-and-map by injecting the noise.'')
      else forward self (\<lambda>d. d_sample D d key sample_shape kwargs))"

definition normalize_log_probs ::
  "('key, 'kw) delegate \<Rightarrow> alignment_crf \<Rightarrow> real ndarray \<Rightarrow> error + real ndarray" where
  "normalize_log_probs D self scores =
     (if alignment_type self = ''non_monotone_one_to_one'' then
        Inl (NotImplementedError ''Non-monotone distribution doesn't support normalization.'')
      else forward self (\<lambda>d. d_normalize_log_probs D d scores))"

definition log_prob ::
  "('key, 'kw) delegate \<Rightarrow> alignment_crf \<Rightarrow> tensor \<Rightarrow> 'kw \<Rightarrow> error + real ndarray" where
  "log_prob D self event kwargs =
     (if alignment_type self = ''non_monotone_one_to_one'' then
        Inl (NotImplementedError ''Non-monotone alignment doesn't support normalized log-probs.'')
      else forward self (\<lambda>d. d_log_prob D d event kwargs))"

text \<open>
  \<^verbatim>\<open>jnp.einsum("...ij,...ij->...", x, y)\<close>: the two operands are broadcast against each
  other, and for every batch index of the result the products of their entries are summed
  over the two trailing axes.
\<close>

definition einsum_ij :: "tensor \<Rightarrow> tensor \<Rightarrow> error + real ndarray" where
  "einsum_ij x y =
     (case (broadcast_shapes (batch x) (batch y),
            broadcast_dim (row x) (row y), broadcast_dim (col x) (col y)) of
        (Some s, Some r, Some c) \<Rightarrow>
          Inr \<lparr>shape = s,
               item = \<lambda>b. \<Sum>i<r. \<Sum>j<c. broadcast_cell x b i j * broadcast_cell y b i j\<rparr>
      | _ \<Rightarrow> Inl ShapeError)"

definition unnormalized_log_prob ::
  "('key, 'kw) delegate \<Rightarrow> alignment_crf \<Rightarrow> pyval \<Rightarrow> 'kw \<Rightarrow> error + real ndarray" where
  "unnormalized_log_prob D self event kwargs =
     (if alignment_type self = ''non_monotone_one_to_one'' then
        (case event of
           Array e \<Rightarrow> einsum_ij e (crf_log_potentials self)
         | _ \<Rightarrow> Inl TypeError)
      else forward self (\<lambda>d. d_unnormalized_log_prob D d event kwargs))"

definition log_partition ::
  "('key, 'kw) delegate \<Rightarrow> alignment_crf \<Rightarrow> 'kw \<Rightarrow> error + real ndarray" where
  "log_partition D self kwargs =
     (if alignment_type self = ''non_monotone_one_to_one'' then
        Inl (NotImplementedError ''Non-monotone alignment doesn't support log-partition.'')
      else forward self (\<lambda>d. d_log_partition D d kwargs))"

definition marginals_for_template_variables ::
  "('key, 'kw) delegate \<Rightarrow> alignment_crf \<Rightarrow> 'kw \<Rightarrow> error + tensor" where
  "marginals_for_template_variables D self kwargs =
     (if alignment_type self = ''non_monotone_one_to_one'' then
        Inl (NotImplementedError ''Non-monotone alignment doesn't support marginals.'')
      else forward self (\<lambda>d. d_marginals_for_template_variables D d kwargs))"

definition marginals ::
  "('key, 'kw) delegate \<Rightarrow> alignment_crf \<Rightarrow> 'kw \<Rightarrow> error + tensor" where
  "marginals D self kwargs =
     (if alignment_type self = ''non_monotone_one_to_one'' then
        Inl (NotImplementedError ''Non-monotone alignment doesn't support marginals.'')
      else forward self (\<lambda>d. d_marginals D d kwargs))"

definition argmax ::
  "real \<Rightarrow> (nat \<Rightarrow> matrix \<Rightarrow> assignment) \<Rightarrow> ('key, 'kw) delegate \<Rightarrow> alignment_crf \<Rightarrow> 'kw
     \<Rightarrow> error + tensor" where
  "argmax INF' solver D self kwargs =
     (if alignment_type self = ''non_monotone_one_to_one'' then
        Inr (fst (jax_non_monotone_align_callback INF' solver
                    (crf_log_potentials self) (crf_lengths self)))
      else forward self (\<lambda>d. d_argmax D d kwargs))"

text \<open>
  \<^verbatim>\<open>event = self.argmax(**kwargs), self\<close> binds \<open>event\<close> to the tuple of the argmax and the
  object itself; \<^verbatim>\<open>return event, self.unnormalized_log_prob(event, **kwargs)\<close>.
\<close>

definition argmax_and_max ::
  "real \<Rightarrow> (nat \<Rightarrow> matrix \<Rightarrow> assignment) \<Rightarrow> ('key, 'kw) delegate \<Rightarrow> alignment_crf \<Rightarrow> 'kw
     \<Rightarrow> error + pyval \<times> real ndarray" where
  "argmax_and_max INF' solver D self kwargs =
     (case argmax INF' solver D self kwargs of
        Inl e \<Rightarrow> Inl e
      | Inr a \<Rightarrow>
          let event = Tuple [Array a, Object self]
          in (case unnormalized_log_prob D self event kwargs of
                Inl e \<Rightarrow> Inl e
              | Inr v \<Rightarrow> Inr (event, v)))"

definition top_k ::
  "('key, 'kw) delegate \<Rightarrow> alignment_crf \<Rightarrow> int \<Rightarrow> 'kw \<Rightarrow> error + tensor \<times> real ndarray" where
  "top_k D self k kwargs =
     (if alignment_type self = ''non_monotone_one_to_one'' then
        Inl (NotImplementedError ''Non-monotone alignment doesn't support top-k.'')
      else forward self (\<lambda>d. d_top_k D d k kwargs))"

definition entropy ::
  "('key, 'kw) delegate \<Rightarrow> alignment_crf \<Rightarrow> 'kw \<Rightarrow> error + real ndarray" where
  "entropy D self kwargs =
     (if alignment_type self = ''non_monotone_one_to_one'' then
        Inl (NotImplementedError ''Non-monotone alignment doesn't support entropy.'')
      else forward self (\<lambda>d. d_entropy D d kwargs))"

definition cross_entropy ::
  "('key, 'kw) delegate \<Rightarrow> alignment_crf \<Rightarrow> alignment_crf \<Rightarrow> 'kw \<Rightarrow> error + real ndarray" where
  "cross_entropy D self other kwargs =
     (if alignment_type self = ''non_monotone_one_to_one'' then
        Inl (NotImplementedError ''Non-monotone alignment doesn't support cross-entropy.'')
      else forward self (\<lambda>d. d_cross_entropy D d (crf_dist other) kwargs))"

definition kl_divergence ::
  "('key, 'kw) delegate \<Rightarrow> alignment_crf \<Rightarrow> alignment_crf \<Rightarrow> 'kw \<Rightarrow> error + real ndarray" where
  "kl_divergence D self other kwargs =
     (if alignment_type self = ''non_monotone_one_to_one'' then
        Inl (NotImplementedError ''Non-monotone alignment doesn't support KL divergence.'')
      else forward self (\<lambda>d. d_kl_divergence D d (crf_dist other) kwargs))"

text \<open>
  The calls of the methods on an instance, in state-passing form. \<open>call\<close> gives the
  instance after the call together with what the call returned or raised; \<open>calls\<close> runs a
  list of calls one after the other, each on the instance the one before it left. No method
  of the source assigns to a field of \<^verbatim>\<open>self\<close>, so every call leaves the instance it was
  given.
\<close>

datatype ('key, 'kw) method_call =
    CallEventShape
  | CallBatchShape
  | CallSample 'key shape_or_int 'kw
  | CallNormalizeLogProbs "real ndarray"
  | CallLogProb tensor 'kw
  | CallUnnormalizedLogProb pyval 'kw
  | CallLogPartition 'kw
  | CallMarginalsForTemplateVariables 'kw
  | CallMarginals 'kw
  | CallArgmax 'kw
  | CallArgmaxAndMax 'kw
  | CallTopK int 'kw
  | CallEntropy 'kw
  | CallCrossEntropy alignment_crf 'kw
  | CallKlDivergence alignment_crf 'kw

datatype returned =
    RetShape "nat list"
  | RetTensor tensor
  | RetArray "real ndarray"
  | RetEventAndMax "pyval \<times> real ndarray"
  | RetTopK "tensor \<times> real ndarray"

definition call ::
  "real \<Rightarrow> (nat \<Rightarrow> matrix \<Rightarrow> assignment) \<Rightarrow> ('key, 'kw) delegate \<Rightarrow> alignment_crf
     \<Rightarrow> ('key, 'kw) method_call \<Rightarrow> alignment_crf \<times> (error + returned)" where
  "call INF' solver D self m =
     (self,
      case m of
        CallEventShape \<Rightarrow> Inr (RetShape (event_shape self))
      | CallBatchShape \<Rightarrow> Inr (RetShape (batch_shape self))
      | CallSample key sample_shape kwargs \<Rightarrow>
          map_sum id RetTensor (sample D self key sample_shape kwargs)
      | CallNormalizeLogProbs scores \<Rightarrow>
          map_sum id RetArray (normalize_log_probs D self scores)
      | CallLogProb event kwargs \<Rightarrow> map_sum id RetArray (log_prob D self event kwargs)
      | CallUnnormalizedLogProb event kwargs \<Rightarrow>
          map_sum id RetArray (unnormalized_log_prob D self event kwargs)
      | CallLogPartition kwargs \<Rightarrow> map_sum id RetArray (log_partition D self kwargs)
      | CallMarginalsForTemplateVariables kwargs \<Rightarrow>
          map_sum id RetTensor (marginals_for_template_variables D self kwargs)
      | CallMarginals kwargs \<Rightarrow> map_sum id RetTensor (marginals D self kwargs)
      | CallArgmax kwargs \<Rightarrow> map_sum id RetTensor (argmax INF' solver D self kwargs)
      | CallArgmaxAndMax kwargs \<Rightarrow>
          map_sum id RetEventAndMax (argmax_and_max INF' solver D self kwargs)
      | CallTopK k kwargs \<Rightarrow> map_sum id RetTopK (top_k D self k kwargs)
      | CallEntropy kwargs \<Rightarrow> map_sum id RetArray (entropy D self kwargs)
      | CallCrossEntropy other kwargs \<Rightarrow>
          map_sum id RetArray (cross_entropy D self other kwargs)
      | CallKlDivergence other kwargs \<Rightarrow>
          map_sum id RetArray (kl_divergence D self other kwargs))"

fun calls ::
  "real \<Rightarrow> (nat \<Rightarrow> matrix \<Rightarrow> assignment) \<Rightarrow> ('key, 'kw) delegate \<Rightarrow> alignment_crf
     \<Rightarrow> ('key, 'kw) method_call list \<Rightarrow> alignment_crf \<times> (error + returned) list" where
  "calls INF' solver D self [] = (self, [])"
| "calls INF' solver D self (m # ms) =
     (case call INF' solver D self m of
        (self', r) \<Rightarrow> (case calls INF' solver D self' ms of
                         (self'', rs) \<Rightarrow> (self'', r # rs)))"

section \<open>Example inputs\<close>

text \<open>The log-potentials \<open>[[1, 0], [0, 1]]\<close>, without batch axes.\<close>

definition example_2x2 :: tensor where
  "example_2x2 = \<lparr>batch = [], row = 2, col = 2, cell = \<lambda>b i j. if i = j then 1 else 0\<rparr>"

text \<open>Log-potentials of two rows and three columns, all zero.\<close>

definition example_2x3 :: tensor where
  "example_2x3 = \<lparr>batch = [], row = 2, col = 3, cell = \<lambda>b i j. 0\<rparr>"

text \<open>The non-monotone distribution over \<open>example_2x2\<close> with the default lengths.\<close>

definition example_crf :: alignment_crf where
  "example_crf = \<lparr>crf_log_potentials = example_2x2, crf_lengths = full [] 2,
                   crf_dist = None, alignment_type = ''non_monotone_one_to_one''\<rparr>"

text \<open>A delegate whose methods return fixed values.\<close>

definition example_delegate :: "(unit, unit) delegate" where
  "example_delegate = \<lparr>
     d_sample = \<lambda>d key sample_shape kwargs. Inr (fst (log_potentials_horizontal d)),
     d_normalize_log_probs = \<lambda>d scores. Inr scores,
     d_log_prob = \<lambda>d event kwargs. Inr (full (batch event) 0),
     d_unnormalized_log_prob =
       \<lambda>d event kwargs. Inr (full (batch (fst (log_potentials_horizontal d))) 0),
     d_log_partition = \<lambda>d kwargs. Inr (full (batch (fst (log_potentials_horizontal d))) 0),
     d_marginals_for_template_variables = \<lambda>d kwargs. Inr (fst (log_potentials_horizontal d)),
     d_marginals = \<lambda>d kwargs. Inr (fst (log_potentials_horizontal d)),
     d_argmax = \<lambda>d kwargs. Inr (fst (log_potentials_horizontal d)),
     d_top_k = \<lambda>d k kwargs. Inl (ValueError []),
     d_entropy = \<lambda>d kwargs. Inr (full (batch (fst (log_potentials_horizontal d))) 0),
     d_cross_entropy =
       \<lambda>d other kwargs. Inr (full (batch (fst (log_potentials_horizontal d))) 0),
     d_kl_divergence =
       \<lambda>d other kwargs. Inr (full (batch (fst (log_potentials_horizontal d))) 0)\<rparr>"

text \<open>The non-monotone distribution over \<open>example_2x2\<close> with length 0.\<close>


definition example_empty_crf :: alignment_crf where
  "example_empty_crf = \<lparr>crf_log_potentials = example_2x2, crf_lengths = full [] 0,
                         crf_dist = None, alignment_type = ''non_monotone_one_to_one''\<rparr>"



text \<open>The monotone many-to-many distribution over \<open>example_2x3\<close>.\<close>

definition example_many_to_many_crf :: alignment_crf where
  "example_many_to_many_crf =
     \<lparr>crf_log_potentials = example_2x3, crf_lengths = full [] 3,
      crf_dist = Some \<lparr>log_potentials_horizontal = (example_2x3, example_2x3),
                        log_potentials_vertical = Some example_2x3,
                        lengths_rows = None, lengths_cols = None\<rparr>,
      alignment_type = ''monotone_many_to_many''\<rparr>"



section \<open>Construction\<close>

lemma init_non_monotone_fields:
  "init log_potentials lengths_rows' lengths_cols' ''non_monotone_one_to_one'' = Inr self \<Longrightarrow>
   crf_log_potentials self = log_potentials
   \<and> alignment_type self = ''non_monotone_one_to_one''
   \<and> row log_potentials = col log_potentials
   \<and> crf_lengths self = (case lengths_rows' of Some l \<Rightarrow> l
        | None \<Rightarrow> full (batch log_potentials) (int (col log_potentials)))"
  by (auto simp add: init_def Let_def split: if_splits)

lemma init_example_crf:
  "init example_2x2 None None ''non_monotone_one_to_one'' = Inr example_crf"
  by (simp add: init_def example_crf_def example_2x2_def)

text \<open>
  Claim C2, as stated, fails: a monotone one-to-many construction without lengths whose
  log-potentials have no more rows than columns need not fail. With two rows and three
  columns it succeeds.
\<close>

theorem init_one_to_many_rows_le_cols_succeeds:
  "row example_2x3 \<le> col example_2x3
   \<and> \<not> isl (init example_2x3 None None ''monotone_one_to_many'')"
  by (simp add: init_def example_2x3_def)

text \<open>
  Claim C2, amended: a monotone one-to-many construction without row lengths and without
  column lengths fails with the ValueError of the degenerate distribution whenever the
  log-potentials have at least as many rows as columns.
\<close>

theorem init_one_to_many_degenerate:
  "col log_potentials \<le> row log_potentials \<Longrightarrow>
   init log_potentials None None ''monotone_one_to_many'' =
     Inl (ValueError
       ''This is a useless distribution because there is less than two alignment possible.'')"
  by (simp add: init_def)

theorem init_one_to_many_degenerate_witness:
  "col example_2x2 \<le> row example_2x2 \<and>
   init example_2x2 None None ''monotone_one_to_many'' =
     Inl (ValueError
       ''This is a useless distribution because there is less than two alignment possible.'')"
  using init_one_to_many_degenerate [of example_2x2] by (simp add: example_2x2_def)

text \<open>
  Claim C6: a non-monotone construction fails exactly when column lengths are supplied or
  the log-potentials are not square, and every failure is a ValueError; with row lengths
  only, or with no lengths, on a square matrix it succeeds.
\<close>

theorem init_non_monotone_error_iff:
  "(isl (init log_potentials lengths_rows' lengths_cols' ''non_monotone_one_to_one'')
      \<longleftrightarrow> lengths_cols' \<noteq> None \<or> row log_potentials \<noteq> col log_potentials)
   \<and> (\<forall>e. init log_potentials lengths_rows' lengths_cols' ''non_monotone_one_to_one'' = Inl e
          \<longrightarrow> (\<exists>msg. e = ValueError msg))"
  by (auto simp add: init_def Let_def)

theorem init_non_monotone_error_iff_witness:
  "isl (init example_2x3 None None ''non_monotone_one_to_one'')
   \<and> isl (init example_2x2 None (Some (full [] 2)) ''non_monotone_one_to_one'')
   \<and> \<not> isl (init example_2x2 (Some (full [] 1)) None ''non_monotone_one_to_one'')
   \<and> \<not> isl (init example_2x2 None None ''non_monotone_one_to_one'')"
  using init_non_monotone_error_iff [of example_2x3 None None]
    init_non_monotone_error_iff [of example_2x2 None "Some (full [] 2)"]
    init_non_monotone_error_iff [of example_2x2 "Some (full [] 1)" None]
    init_non_monotone_error_iff [of example_2x2 None None]
  by (simp add: example_2x2_def example_2x3_def)

text \<open>
  Claim C7: when the row lengths are omitted, the stored length vector has the batch shape
  of the log-potentials and every entry is their column count, whatever the alignment type
  and the column lengths.
\<close>

theorem init_default_lengths:
  "init log_potentials None lengths_cols' alignment_type' = Inr self \<Longrightarrow>
   crf_lengths self = full (batch log_potentials) (int (col log_potentials))
   \<and> shape (crf_lengths self) = batch log_potentials
   \<and> (\<forall>b. item (crf_lengths self) b = int (col log_potentials))"
  by (auto simp add: init_def Let_def full_def split: if_splits)

theorem init_default_lengths_witness:
  "init example_2x3 None None ''monotone_many_to_many'' =
     Inr \<lparr>crf_log_potentials = example_2x3, crf_lengths = full [] 3,
          crf_dist = Some \<lparr>log_potentials_horizontal = (example_2x3, example_2x3),
                            log_potentials_vertical = Some example_2x3,
                            lengths_rows = None, lengths_cols = None\<rparr>,
          alignment_type = ''monotone_many_to_many''\<rparr>
   \<and> shape (full [] (3::int)) = batch example_2x3
   \<and> item (full [] (3::int)) [] = int (col example_2x3)"
proof -
  have i: "init example_2x3 None None ''monotone_many_to_many'' =
     Inr \<lparr>crf_log_potentials = example_2x3, crf_lengths = full [] 3,
          crf_dist = Some \<lparr>log_potentials_horizontal = (example_2x3, example_2x3),
                            log_potentials_vertical = Some example_2x3,
                            lengths_rows = None, lengths_cols = None\<rparr>,
          alignment_type = ''monotone_many_to_many''\<rparr>"
    by (simp add: init_def example_2x3_def)
  have "shape (full [] (3::int)) = batch example_2x3
        \<and> item (full [] (3::int)) [] = int (col example_2x3)"
    using init_default_lengths [OF i] by (simp add: example_2x3_def full_def)
  with i show ?thesis
    by (simp only: simp_thms)
qed

lemma call_instance: "call INF' solver D self m = (self', r) \<Longrightarrow> self' = self"
  by (simp add: call_def)

lemma fst_calls: "fst (calls INF' solver D self ms) = self"
proof (induction ms arbitrary: self)
  case Nil
  show ?case by simp
next
  case (Cons m ms)
  obtain self' r where c: "call INF' solver D self m = (self', r)"
    by (cases "call INF' solver D self m")
  then have "self' = self" by (rule call_instance)
  with c Cons [of self] show ?case
    by (auto split: prod.splits)
qed

lemma init_example_many_to_many_crf:
  "init example_2x3 None None ''monotone_many_to_many'' = Inr example_many_to_many_crf"
  by (simp add: init_def example_many_to_many_crf_def example_2x3_def)

lemma init_success:
  assumes "init log_potentials lengths_rows' lengths_cols' alignment_type' = Inr self"
  shows "alignment_type self = alignment_type'"
    and "alignment_type' = ''monotone_one_to_many'' \<Longrightarrow>
          crf_dist self = Some \<lparr>log_potentials_horizontal = (log_potentials, log_potentials),
                                  log_potentials_vertical = None,
                                  lengths_rows = lengths_rows', lengths_cols = lengths_cols'\<rparr>"
    and "alignment_type' = ''monotone_many_to_many'' \<Longrightarrow>
          crf_dist self = Some \<lparr>log_potentials_horizontal = (log_potentials, log_potentials),
                                  log_potentials_vertical = Some log_potentials,
                                  lengths_rows = lengths_rows', lengths_cols = lengths_cols'\<rparr>"
    and "alignment_type' = ''non_monotone_one_to_one'' \<Longrightarrow> crf_dist self = None"
    and "alignment_type' = ''monotone_one_to_many'' \<or> alignment_type' = ''monotone_many_to_many''
         \<or> alignment_type' = ''non_monotone_one_to_one''"
proof -
  show "alignment_type self = alignment_type'"
    using assms by (simp add: init_def Let_def split: if_splits) auto
  show "crf_dist self = Some \<lparr>log_potentials_horizontal = (log_potentials, log_potentials),
                                  log_potentials_vertical = None,
                                  lengths_rows = lengths_rows', lengths_cols = lengths_cols'\<rparr>"
    if "alignment_type' = ''monotone_one_to_many''"
    using assms that by (simp add: init_def Let_def split: if_splits) auto
  show "crf_dist self = Some \<lparr>log_potentials_horizontal = (log_potentials, log_potentials),
                                  log_potentials_vertical = Some log_potentials,
                                  lengths_rows = lengths_rows', lengths_cols = lengths_cols'\<rparr>"
    if "alignment_type' = ''monotone_many_to_many''"
    using assms that by (simp add: init_def Let_def split: if_splits) auto
  show "crf_dist self = None" if "alignment_type' = ''non_monotone_one_to_one''"
    using assms that by (simp add: init_def Let_def split: if_splits) auto
  show "alignment_type' = ''monotone_one_to_many'' \<or> alignment_type' = ''monotone_many_to_many''
         \<or> alignment_type' = ''non_monotone_one_to_one''"
    using assms by (simp add: init_def Let_def split: if_splits)
qed

text \<open>
  Claim C9: a construction that succeeds stores the alignment type it was given, and the
  delegate is present exactly when that type is not the non-monotone one: for the two
  monotone types it is the delegate built from the arguments, for the non-monotone type
  it is absent. Any sequence of method calls leaves the instance, and so its delegate
  field and its alignment type, as the construction set them.
\<close>

theorem init_delegate_iff:
  assumes "init log_potentials lengths_rows' lengths_cols' alignment_type' = Inr self"
  shows "alignment_type self = alignment_type'
     \<and> (crf_dist self \<noteq> None \<longleftrightarrow> alignment_type' \<noteq> ''non_monotone_one_to_one'')
     \<and> (alignment_type' = ''non_monotone_one_to_one'' \<longrightarrow> crf_dist self = None)
     \<and> (alignment_type' = ''monotone_one_to_many'' \<longrightarrow>
          crf_dist self = Some \<lparr>log_potentials_horizontal = (log_potentials, log_potentials),
                                  log_potentials_vertical = None,
                                  lengths_rows = lengths_rows', lengths_cols = lengths_cols'\<rparr>)
     \<and> (alignment_type' = ''monotone_many_to_many'' \<longrightarrow>
          crf_dist self = Some \<lparr>log_potentials_horizontal = (log_potentials, log_potentials),
                                  log_potentials_vertical = Some log_potentials,
                                  lengths_rows = lengths_rows', lengths_cols = lengths_cols'\<rparr>)
     \<and> (\<forall>(D :: ('key, 'kw) delegate) INF' solver ms.
           fst (calls INF' solver D self ms) = self)"
proof -
  note s = init_success [OF assms]
  have "crf_dist self \<noteq> None \<longleftrightarrow> alignment_type' \<noteq> ''non_monotone_one_to_one''"
  proof
    assume "crf_dist self \<noteq> None"
    with s(4) show "alignment_type' \<noteq> ''non_monotone_one_to_one''" by blast
  next
    assume "alignment_type' \<noteq> ''non_monotone_one_to_one''"
    with s(5) have "alignment_type' = ''monotone_one_to_many''
                    \<or> alignment_type' = ''monotone_many_to_many''" by blast
    then show "crf_dist self \<noteq> None"
    proof
      assume "alignment_type' = ''monotone_one_to_many''"
      from s(2) [OF this] show ?thesis by simp
    next
      assume "alignment_type' = ''monotone_many_to_many''"
      from s(3) [OF this] show ?thesis by simp
    qed
  qed
  moreover have "\<forall>(D :: ('key, 'kw) delegate) INF' solver ms.
           fst (calls INF' solver D self ms) = self"
    by (simp add: fst_calls)
  ultimately show ?thesis
    using s(1) s(2) s(3) s(4) by (intro conjI impI) assumption+
qed

theorem init_delegate_iff_witness:
  "init example_2x2 None None ''non_monotone_one_to_one'' = Inr example_crf
   \<and> crf_dist example_crf = None
   \<and> alignment_type example_crf = ''non_monotone_one_to_one''
   \<and> init example_2x3 None None ''monotone_many_to_many'' = Inr example_many_to_many_crf
   \<and> crf_dist example_many_to_many_crf \<noteq> None
   \<and> alignment_type example_many_to_many_crf = ''monotone_many_to_many''
   \<and> fst (calls 100000 exhaustive_assignment example_delegate example_many_to_many_crf
             [CallArgmax (), CallSample () (ShapeInt 1) (), CallArgmaxAndMax (),
              CallCrossEntropy example_crf ()]) = example_many_to_many_crf
   \<and> fst (calls 100000 exhaustive_assignment example_delegate example_crf
             [CallArgmax (), CallEntropy (), CallUnnormalizedLogProb (Array example_2x2) ()])
       = example_crf"
proof -
  note a = init_delegate_iff [OF init_example_crf, where ?'key = unit and ?'kw = unit]
  note b = init_delegate_iff [OF init_example_many_to_many_crf,
      where ?'key = unit and ?'kw = unit]
  have a1: "alignment_type example_crf = ''non_monotone_one_to_one''"
    by (rule a [THEN conjunct1])
  have a2: "crf_dist example_crf = None"
    by (rule a [THEN conjunct2, THEN conjunct2, THEN conjunct1, THEN mp]) (rule refl)
  have a3: "fst (calls 100000 exhaustive_assignment example_delegate example_crf
             [CallArgmax (), CallEntropy (), CallUnnormalizedLogProb (Array example_2x2) ()])
       = example_crf"
    by (rule a [THEN conjunct2, THEN conjunct2, THEN conjunct2, THEN conjunct2, THEN conjunct2,
          THEN spec, THEN spec, THEN spec, THEN spec])
  have b1: "alignment_type example_many_to_many_crf = ''monotone_many_to_many''"
    by (rule b [THEN conjunct1])
  have b2: "crf_dist example_many_to_many_crf \<noteq> None"
    by (rule b [THEN conjunct2, THEN conjunct1, THEN iffD2]) simp
  have b3: "fst (calls 100000 exhaustive_assignment example_delegate example_many_to_many_crf
             [CallArgmax (), CallSample () (ShapeInt 1) (), CallArgmaxAndMax (),
              CallCrossEntropy example_crf ()]) = example_many_to_many_crf"
    by (rule b [THEN conjunct2, THEN conjunct2, THEN conjunct2, THEN conjunct2, THEN conjunct2,
          THEN spec, THEN spec, THEN spec, THEN spec])
  show ?thesis
    by (intro conjI) (rule init_example_crf init_example_many_to_many_crf a1 a2 a3 b1 b2 b3)+
qed

section \<open>Operations of the non-monotone distribution\<close>

lemma broadcast_rev_same: "broadcast_rev xs xs = Some xs"
  by (induction xs) (simp_all add: broadcast_dim_def)

lemma broadcast_shapes_same: "broadcast_shapes s s = Some s"
  by (simp add: broadcast_shapes_def broadcast_rev_same)

lemma broadcast_dim_same: "broadcast_dim x x = Some x"
  by (simp add: broadcast_dim_def)

lemma map2_in_shape:
  "list_all2 (\<lambda>k d. k < d) b s \<Longrightarrow>
   map2 (\<lambda>d k. if d = 1 then 0 else k) s b = (b :: nat list)"
  by (induction rule: list_all2_induct) auto

lemma broadcast_index_in_shape:
  assumes "in_shape b s"
  shows "broadcast_index s b = b"
proof -
  from assms have l: "list_all2 (\<lambda>k d. k < d) b s"
    by (simp add: in_shape_def)
  then have "length b = length s"
    by (rule list_all2_lengthD)
  then have "drop (length b - length s) b = b"
    by simp
  then show ?thesis
    unfolding broadcast_index_def by (simp only: map2_in_shape [OF l])
qed

lemma broadcast_cell_in_shape:
  "in_shape b (batch x) \<Longrightarrow> i < row x \<Longrightarrow> j < col x \<Longrightarrow> broadcast_cell x b i j = cell x b i j"
  by (auto simp add: broadcast_cell_def broadcast_index_in_shape)

text \<open>
  Claim C4: on a non-monotone distribution constructed from \<open>log_potentials\<close>, the
  unnormalized log-probability of an event of the same shape is, for every batch element,
  the sum over all cells of the event's entry times the entry of the log-potentials given
  to the constructor; the lengths play no part.
\<close>

theorem unnormalized_log_prob_non_monotone:
  assumes "init log_potentials lengths_rows' lengths_cols' ''non_monotone_one_to_one'' = Inr self"
    and "batch event = batch log_potentials"
    and "row event = row log_potentials"
    and "col event = col log_potentials"
  shows "\<exists>r. unnormalized_log_prob D self (Array event) kwargs = Inr r
           \<and> shape r = batch log_potentials
           \<and> (\<forall>b. in_shape b (batch log_potentials) \<longrightarrow>
                item r b = (\<Sum>i<row log_potentials. \<Sum>j<col log_potentials.
                              cell event b i j * cell log_potentials b i j))"
proof -
  from assms(1) have f: "crf_log_potentials self = log_potentials"
    "alignment_type self = ''non_monotone_one_to_one''"
    using init_non_monotone_fields by blast+
  let ?r = "\<lparr>shape = batch log_potentials,
             item = \<lambda>b. \<Sum>i<row log_potentials. \<Sum>j<col log_potentials.
                      broadcast_cell event b i j * broadcast_cell log_potentials b i j\<rparr>"
  have "unnormalized_log_prob D self (Array event) kwargs = Inr ?r"
    by (simp add: unnormalized_log_prob_def f einsum_ij_def assms(2-4)
        broadcast_shapes_same broadcast_dim_same)
  moreover have "item ?r b = (\<Sum>i<row log_potentials. \<Sum>j<col log_potentials.
                              cell event b i j * cell log_potentials b i j)"
    if "in_shape b (batch log_potentials)" for b
    using that by (simp add: broadcast_cell_in_shape assms(2-4))
  ultimately show ?thesis by simp
qed

text \<open>The example of the claim: log-potentials and event \<open>[[1, 0], [0, 1]]\<close> give 2.\<close>

theorem unnormalized_log_prob_non_monotone_witness:
  "init example_2x2 None None ''non_monotone_one_to_one'' = Inr example_crf
   \<and> (\<exists>r. unnormalized_log_prob example_delegate example_crf (Array example_2x2) () = Inr r
          \<and> shape r = [] \<and> item r [] = 2)"
proof -
  have s: "in_shape [] (batch example_2x2)"
    by (simp add: in_shape_def example_2x2_def)
  have v: "(\<Sum>i<row example_2x2. \<Sum>j<col example_2x2.
             cell example_2x2 [] i j * cell example_2x2 [] i j) = 2"
    by (simp add: example_2x2_def eval_nat_numeral lessThan_Suc)
  from unnormalized_log_prob_non_monotone
         [OF init_example_crf refl refl refl, of example_delegate "()"] s v
  show ?thesis using init_example_crf by (auto simp add: example_2x2_def)
qed

text \<open>
  Claim C5: on a non-monotone instance each of \<open>sample\<close>, \<open>log_prob\<close>, \<open>log_partition\<close>,
  \<open>marginals\<close>, \<open>top_k\<close>, \<open>entropy\<close>, \<open>cross_entropy\<close> and \<open>kl_divergence\<close> raises
  NotImplementedError, whatever its arguments, with a message that names what is not
  supported.
\<close>

theorem non_monotone_unsupported:
  assumes "alignment_type self = ''non_monotone_one_to_one''"
  shows "sample D self key sample_shape kwargs = Inl (NotImplementedError
           ''Non-monotone distribution doesn't support sampling.\<newline>Instead, you can try perturb-and-map by injecting the noise.'')
    \<and> log_prob D self event kwargs = Inl (NotImplementedError
           ''Non-monotone alignment doesn't support normalized log-probs.'')
    \<and> log_partition D self kwargs = Inl (NotImplementedError
           ''Non-monotone alignment doesn't support log-partition.'')
    \<and> marginals D self kwargs = Inl (NotImplementedError
           ''Non-monotone alignment doesn't support marginals.'')
    \<and> top_k D self k kwargs = Inl (NotImplementedError
           ''Non-monotone alignment doesn't support top-k.'')
    \<and> entropy D self kwargs = Inl (NotImplementedError
           ''Non-monotone alignment doesn't support entropy.'')
    \<and> cross_entropy D self other kwargs = Inl (NotImplementedError
           ''Non-monotone alignment doesn't support cross-entropy.'')
    \<and> kl_divergence D self other kwargs = Inl (NotImplementedError
           ''Non-monotone alignment doesn't support KL divergence.'')"
  using assms
  by (simp add: sample_def log_prob_def log_partition_def marginals_def top_k_def
      entropy_def cross_entropy_def kl_divergence_def)

theorem non_monotone_unsupported_witness:
  "alignment_type example_crf = ''non_monotone_one_to_one''
   \<and> isl (sample example_delegate example_crf () (ShapeInt 1) ())
   \<and> isl (log_prob example_delegate example_crf example_2x2 ())
   \<and> isl (log_partition example_delegate example_crf ())
   \<and> isl (marginals example_delegate example_crf ())
   \<and> isl (top_k example_delegate example_crf 1 ())
   \<and> isl (entropy example_delegate example_crf ())
   \<and> isl (cross_entropy example_delegate example_crf example_crf ())
   \<and> isl (kl_divergence example_delegate example_crf example_crf ())"
proof -
  have t: "alignment_type example_crf = ''non_monotone_one_to_one''"
    by (simp add: example_crf_def)
  from non_monotone_unsupported
         [OF t, of example_delegate "()" "ShapeInt 1" "()" example_2x2 1 example_crf]
  show ?thesis using t by simp
qed

text \<open>
  Claim C8: the backward rule that \<open>jax_non_monotone_align_callback\<close> declares returns,
  for every cotangent, the zero tensor of the shape of the log-potentials as the gradient
  with respect to the log-potentials, and no gradient with respect to the lengths.
\<close>

theorem backward_rule_zero:
  "snd (jax_non_monotone_align_callback INF' solver log_potentials lenghts) g =
     (zeros_like log_potentials, None)"
  by (simp add: jax_non_monotone_align_callback_def padded_log_potentials_def Let_def
      zeros_like_def)

text \<open>
  Claim C1 does not hold of the code. \<open>argmax_and_max\<close> binds the event to the tuple of the
  argmax and the object itself, and that tuple is what it passes on and would return: on
  the non-monotone \<open>example_crf\<close>, \<open>argmax\<close> returns an array, \<open>unnormalized_log_prob\<close> of
  that array returns a value, and \<open>argmax_and_max\<close> raises.
\<close>

theorem argmax_and_max_example:
  "\<not> isl (argmax 100000 exhaustive_assignment example_delegate example_crf ())
   \<and> \<not> isl (unnormalized_log_prob example_delegate example_crf
              (Array (projr (argmax 100000 exhaustive_assignment example_delegate
                               example_crf ()))) ())
   \<and> argmax_and_max 100000 exhaustive_assignment example_delegate example_crf ()
       = Inl TypeError"
  by (simp add: argmax_and_max_def argmax_def unnormalized_log_prob_def example_crf_def
      einsum_ij_def broadcast_shapes_same broadcast_dim_same
      jax_non_monotone_align_callback_def numpy_non_monotone_align_def
      padded_log_potentials_def Let_def)

text \<open>Whatever the alignment type and the delegate, the first component of a result of
  \<open>argmax_and_max\<close> is never an array.\<close>

lemma argmax_and_max_first_component:
  "argmax_and_max INF' solver D self kwargs \<noteq> Inr (Array a, v)"
  by (auto simp add: argmax_and_max_def Let_def split: sum.splits)

section \<open>The non-monotone argmax\<close>

subsection \<open>Permutations and weights\<close>

lemma in_permutations_upto:
  "q \<in> set (permutations_upto n) \<longleftrightarrow> length q = n \<and> distinct q \<and> set q \<subseteq> {..<n}"
  by (auto simp add: permutations_upto_def set_n_lists)

lemma identity_in_permutations_upto: "[0..<n] \<in> set (permutations_upto n)"
  by (auto simp add: in_permutations_upto)

lemma zip_upt_nth: "length q = n \<Longrightarrow> zip [0..<n] q = map (\<lambda>k. (k, q ! k)) [0..<n]"
  by (rule nth_equalityI) simp_all

lemma assignment_weight_upt:
  assumes "length q = n"
  shows "assignment_weight M ([0..<n], q) = (\<Sum>k<n. M k (q ! k))"
proof -
  have "assignment_weight M ([0..<n], q) = sum_list (map (\<lambda>k. M k (q ! k)) [0..<n])"
    by (simp add: assignment_weight_def zip_upt_nth [OF assms] comp_def)
  also have "\<dots> = (\<Sum>k<n. M k (q ! k))"
    by (simp add: interv_sum_list_conv_sum_set_nat atLeast0LessThan)
  finally show ?thesis .
qed





lemma permutations_upto_2: "permutations_upto 2 = [[1, 0], [0, 1]]"
  by (simp add: permutations_upto_def eval_nat_numeral upt_rec)

lemma upt_2: "[0..<2] = [0, 1]"
  by (simp add: eval_nat_numeral upt_rec)

lemma item_full: "item (full s v) b = v"
  by (simp add: full_def)

subsection \<open>The cells of the padded matrix and of the result\<close>

lemma padded_cell:
  "cell (padded_log_potentials INF' log_potentials lenghts) b i j =
     (if item lenghts b \<le> int j \<and> i = j then INF'
      else if length_mask lenghts b i j then cell log_potentials b i j else - INF')"
  by (simp add: padded_log_potentials_def Let_def)

lemma padded_col: "col (padded_log_potentials INF' log_potentials lenghts) = col log_potentials"
  by (simp add: padded_log_potentials_def Let_def)

lemma callback_cell:
  "cell (fst (jax_non_monotone_align_callback INF' solver log_potentials lenghts)) b i j =
     real (count_list
        (zip (fst (solver (col log_potentials)
                     (cell (padded_log_potentials INF' log_potentials lenghts) b)))
             (snd (solver (col log_potentials)
                     (cell (padded_log_potentials INF' log_potentials lenghts) b))))
        (i, j)) * of_bool (length_mask lenghts b i j)"
  by (simp add: jax_non_monotone_align_callback_def numpy_non_monotone_align_def Let_def
      padded_col)

lemma callback_cell_masked:
  "\<not> length_mask lenghts b i j \<Longrightarrow>
   cell (fst (jax_non_monotone_align_callback INF' solver log_potentials lenghts)) b i j = 0"
  by (simp add: callback_cell)


subsection \<open>A maximum-weight assignment stays within the lengths\<close>

text \<open>
  When the log-potentials of the valid cells are bounded by \<open>B\<close> and \<open>2 n B\<close> is below the
  padding constant, a maximum-weight assignment of the padded matrix uses no cell that the
  padding forbids: it pairs every row below the length with a column below the length, and
  every other row with itself. Otherwise the identity assignment would weigh more.
\<close>

lemma maximum_weight_within_lengths:
  assumes mx: "maximum_weight_assignment (col lp) (cell (padded_log_potentials INF' lp lens) b) ij"
    and B0: "0 \<le> B"
    and BI: "2 * real (col lp) * B < INF'"
    and bd: "\<forall>i<col lp. \<forall>j<col lp. length_mask lens b i j \<longrightarrow> \<bar>cell lp b i j\<bar> \<le> B"
    and k0: "k0 < col lp"
  shows "(item lens b \<le> int k0 \<and> snd ij ! k0 = k0) \<or> length_mask lens b k0 (snd ij ! k0)"
proof (rule ccontr)
  let ?n = "col lp"
  let ?M = "cell (padded_log_potentials INF' lp lens) b"
  let ?q = "snd ij"
  let ?u = "\<lambda>k. if int k < item lens b then B else INF'"
  assume bad: "\<not> ((item lens b \<le> int k0 \<and> ?q ! k0 = k0) \<or> length_mask lens b k0 (?q ! k0))"
  have I0: "0 < INF'"
  proof -
    have "0 \<le> 2 * real ?n * B" using B0 by simp
    with BI show ?thesis by linarith
  qed
  from mx have q: "?q \<in> set (permutations_upto ?n)"
    and ij: "ij = ([0..<?n], ?q)"
    and best: "assignment_weight ?M ([0..<?n], [0..<?n]) \<le> assignment_weight ?M ij"
    using identity_in_permutations_upto [of ?n]
    by (auto simp add: maximum_weight_assignment_def prod_eq_iff)
  from q have lq: "length ?q = ?n" and sq: "set ?q \<subseteq> {..<?n}"
    by (simp_all add: in_permutations_upto)
  have rq: "?q ! k < ?n" if "k < ?n" for k
  proof -
    from that lq have "?q ! k \<in> set ?q" by simp
    with sq show ?thesis by blast
  qed
  have wq: "assignment_weight ?M ij = (\<Sum>k<?n. ?M k (?q ! k))"
    using assignment_weight_upt [OF lq, of ?M] ij by simp
  have wi: "assignment_weight ?M ([0..<?n], [0..<?n]) = (\<Sum>k<?n. ?M k k)"
    using assignment_weight_upt [of "[0..<?n]" ?n ?M] by simp
  have up: "?M k (?q ! k) \<le> ?u k" if "k < ?n" for k
  proof -
    from that have "?q ! k < ?n" by (rule rq)
    with bd that have "length_mask lens b k (?q ! k) \<Longrightarrow> cell lp b k (?q ! k) \<le> B"
      by fastforce
    then show ?thesis
      using I0 B0 by (auto simp add: padded_cell length_mask_def)
  qed
  have lo: "?u k - 2 * B \<le> ?M k k" if "k < ?n" for k
  proof -
    from bd that have "length_mask lens b k k \<Longrightarrow> - B \<le> cell lp b k k"
      by fastforce
    then show ?thesis
      using I0 B0 by (auto simp add: padded_cell length_mask_def)
  qed
  from bad have b0: "?M k0 (?q ! k0) = - INF'"
    by (auto simp add: padded_cell)
  have u0: "0 \<le> ?u k0"
    using I0 B0 by simp
  have fin: "finite {..<?n}" and mem: "k0 \<in> {..<?n}"
    using k0 by simp_all
  have "(\<Sum>k<?n. ?M k (?q ! k)) = ?M k0 (?q ! k0) + (\<Sum>k\<in>{..<?n} - {k0}. ?M k (?q ! k))"
    by (rule sum.remove [OF fin mem])
  also have "\<dots> \<le> - INF' + (\<Sum>k\<in>{..<?n} - {k0}. ?u k)"
  proof -
    have "(\<Sum>k\<in>{..<?n} - {k0}. ?M k (?q ! k)) \<le> (\<Sum>k\<in>{..<?n} - {k0}. ?u k)"
      by (rule sum_mono) (simp add: up)
    with b0 show ?thesis by simp
  qed
  finally have A: "(\<Sum>k<?n. ?M k (?q ! k)) \<le> - INF' + (\<Sum>k\<in>{..<?n} - {k0}. ?u k)" .
  have "(\<Sum>k<?n. ?u k) - 2 * real ?n * B = (\<Sum>k<?n. ?u k - 2 * B)"
    by (simp add: sum_subtractf)
  also have "\<dots> \<le> (\<Sum>k<?n. ?M k k)"
    by (rule sum_mono) (simp add: lo)
  finally have C: "(\<Sum>k<?n. ?u k) - 2 * real ?n * B \<le> (\<Sum>k<?n. ?M k k)" .
  have D: "(\<Sum>k<?n. ?u k) = ?u k0 + (\<Sum>k\<in>{..<?n} - {k0}. ?u k)"
    by (rule sum.remove [OF fin mem])
  from A C D u0 BI have "(\<Sum>k<?n. ?M k (?q ! k)) < (\<Sum>k<?n. ?M k k)"
    by linarith
  with best wq wi show False by simp
qed

subsection \<open>Length zero\<close>

lemma empty_assignment:
  "maximum_weight_assignment 2
     (cell (padded_log_potentials 100000 example_2x2 (full [] 0)) [])
     (exhaustive_assignment 2 (cell (padded_log_potentials 100000 example_2x2 (full [] 0)) []))"
  by (simp add: exhaustive_assignment_def maximum_weight_assignment_def permutations_upto_2 upt_2
      assignment_weight_def padded_cell length_mask_def item_full example_2x2_def)

text \<open>
  Claim C10: for a batch element of length 0 the non-monotone \<open>argmax\<close> returns a value,
  and every entry of that element is 0, whatever assignment the solver returns. With a
  positive padding constant the padded matrix, which has the constant on the diagonal and
  its negation elsewhere, has one maximum-weight assignment only: every row with itself.
\<close>

theorem argmax_length_zero:
  assumes ty: "alignment_type self = ''non_monotone_one_to_one''"
    and z: "item (crf_lengths self) b = 0"
  shows "(\<exists>a. argmax INF' solver D self kwargs = Inr a \<and> (\<forall>i j. cell a b i j = 0))
     \<and> (0 < INF' \<longrightarrow>
          (\<forall>ij. maximum_weight_assignment (col (crf_log_potentials self))
                  (cell (padded_log_potentials INF' (crf_log_potentials self) (crf_lengths self)) b)
                  ij
                \<longrightarrow> ij = ([0..<col (crf_log_potentials self)],
                          [0..<col (crf_log_potentials self)])))"
proof (intro conjI impI allI)
  let ?lp = "crf_log_potentials self"
  let ?lens = "crf_lengths self"
  let ?a = "fst (jax_non_monotone_align_callback INF' solver ?lp ?lens)"
  have m: "\<not> length_mask ?lens b i j" for i j
    by (simp add: length_mask_def z)
  have "argmax INF' solver D self kwargs = Inr ?a"
    by (simp add: argmax_def ty)
  moreover have "\<forall>i j. cell ?a b i j = 0"
    by (simp add: callback_cell_masked m)
  ultimately show "\<exists>a. argmax INF' solver D self kwargs = Inr a \<and> (\<forall>i j. cell a b i j = 0)"
    by blast
next
  fix ij
  let ?lp = "crf_log_potentials self"
  let ?lens = "crf_lengths self"
  let ?n = "col ?lp"
  assume I: "0 < INF'"
    and mx: "maximum_weight_assignment ?n (cell (padded_log_potentials INF' ?lp ?lens) b) ij"
  have m: "\<not> length_mask ?lens b i j" for i j
    by (simp add: length_mask_def z)
  from mx have f: "fst ij = [0..<?n]" and l: "length (snd ij) = ?n"
    by (simp_all add: maximum_weight_assignment_def in_permutations_upto)
  have "snd ij ! k = k" if "k < ?n" for k
  proof -
    have "(item ?lens b \<le> int k \<and> snd ij ! k = k) \<or> length_mask ?lens b k (snd ij ! k)"
      by (rule maximum_weight_within_lengths [OF mx, of 0]) (simp_all add: I m that)
    with m show ?thesis by blast
  qed
  with l have "snd ij = [0..<?n]"
    by (intro nth_equalityI) simp_all
  with f show "ij = ([0..<?n], [0..<?n])"
    by (simp add: prod_eq_iff)
qed

theorem argmax_length_zero_witness:
  "alignment_type example_empty_crf = ''non_monotone_one_to_one''
   \<and> item (crf_lengths example_empty_crf) [] = 0
   \<and> (\<exists>a. argmax 100000 exhaustive_assignment example_delegate example_empty_crf () = Inr a
          \<and> (\<forall>i j. cell a [] i j = 0))
   \<and> (0::real) < 100000
   \<and> exhaustive_assignment 2 (cell (padded_log_potentials 100000 example_2x2 (full [] 0)) [])
       = ([0..<2], [0..<2])"
proof -
  have ty: "alignment_type example_empty_crf = ''non_monotone_one_to_one''"
    and z: "item (crf_lengths example_empty_crf) [] = 0"
    and lp: "crf_log_potentials example_empty_crf = example_2x2"
    and ln: "crf_lengths example_empty_crf = full [] 0"
    and c: "col example_2x2 = 2"
    by (simp_all add: example_empty_crf_def item_full example_2x2_def)
  note t = argmax_length_zero [OF ty z, of 100000 exhaustive_assignment example_delegate "()"]
  from t have "\<exists>a. argmax 100000 exhaustive_assignment example_delegate example_empty_crf ()
                    = Inr a \<and> (\<forall>i j. cell a [] i j = 0)"
    by (rule conjunct1)
  moreover from t
  have "\<forall>ij. maximum_weight_assignment 2
               (cell (padded_log_potentials 100000 example_2x2 (full [] 0)) []) ij
             \<longrightarrow> ij = ([0..<2], [0..<2])"
    by (simp add: lp ln c del: split_paired_All)
  with empty_assignment
  have "exhaustive_assignment 2 (cell (padded_log_potentials 100000 example_2x2 (full [] 0)) [])
       = ([0..<2], [0..<2])"
    by blast
  ultimately show ?thesis
    using ty z by simp
qed

subsection \<open>The permutation within the lengths\<close>














end
